theory Spec2Isabelle
  imports Complex_Main
begin

section \<open>Data model\<close>

text \<open>Interface Photo of galleryStore.ts; the timestamp is Date.now(), milliseconds.\<close>

record Photo =
  id_str :: string
  uri :: string
  timestamp :: nat

datatype ViewMode = swipe | grid

text \<open>A thrown JavaScript value, carried by a rejected promise or caught by a handler.\<close>

datatype exn = Exn string

section \<open>Swipe decision engine (useSwipeLogic, SwipeCard)\<close>

text \<open>
  JavaScript numbers that a gesture carries (displacement, velocity) are finite doubles;
  they are embedded as rationals, on which the comparisons of the source are exact.
\<close>

definition SWIPE_THRESHOLD :: rat where
  "SWIPE_THRESHOLD = 100"

text \<open>The part of PanResponder's gesture state that the card reads.\<close>

record gesture =
  dx :: rat
  dy :: rat
  vx :: rat

text \<open>The two animated values of the card.\<close>

record card =
  translateX :: rat
  translateY :: rat

text \<open>The two props of SwipeCard that are terminal callbacks.\<close>

datatype callback = onSwipeLeft | onSwipeRight

text \<open>Which animation a release starts.\<close>

datatype animation = Timing rat | Spring

text \<open>
  What one run of an animation leaves behind: the animation that ran, the callbacks its
  completion handler invoked (in order), and the card afterwards.
\<close>

record outcome =
  anim :: animation
  fired :: "callback list"
  final :: card

definition resetPosition :: "card \<Rightarrow> outcome" where
  "resetPosition c =
     \<lparr>anim = Spring, fired = [], final = c\<lparr>translateX := 0, translateY := 0\<rparr>\<rparr>"

text \<open>
  dismissRight: a timing animation of translateX to 1.5 screen widths; its completion
  handler calls the callback, then sets both values to 0.
\<close>

definition dismissRight :: "rat \<Rightarrow> callback \<Rightarrow> card \<Rightarrow> outcome" where
  "dismissRight SCREEN_WIDTH cb c =
     (let c1 = c\<lparr>translateX := SCREEN_WIDTH * 1.5\<rparr>;
          called = [cb];
          c2 = c1\<lparr>translateX := 0\<rparr>;
          c3 = c2\<lparr>translateY := 0\<rparr>
      in \<lparr>anim = Timing (SCREEN_WIDTH * 1.5), fired = called, final = c3\<rparr>)"

definition dismissLeft :: "rat \<Rightarrow> callback \<Rightarrow> card \<Rightarrow> outcome" where
  "dismissLeft SCREEN_WIDTH cb c =
     (let c1 = c\<lparr>translateX := - SCREEN_WIDTH * 1.5\<rparr>;
          called = [cb];
          c2 = c1\<lparr>translateX := 0\<rparr>;
          c3 = c2\<lparr>translateY := 0\<rparr>
      in \<lparr>anim = Timing (- SCREEN_WIDTH * 1.5), fired = called, final = c3\<rparr>)"

definition onPanResponderMove :: "gesture \<Rightarrow> card \<Rightarrow> card" where
  "onPanResponderMove g c = c\<lparr>translateX := dx g, translateY := dy g\<rparr>"

definition onPanResponderRelease :: "rat \<Rightarrow> gesture \<Rightarrow> card \<Rightarrow> outcome" where
  "onPanResponderRelease SCREEN_WIDTH g c =
     (if vx g > 0.5 \<or> dx g > SWIPE_THRESHOLD then dismissRight SCREEN_WIDTH onSwipeRight c
      else if vx g < - 0.5 \<or> dx g < - SWIPE_THRESHOLD then dismissLeft SCREEN_WIDTH onSwipeLeft c
      else resetPosition c)"

text \<open>One gesture cycle: the finger moves to the release point, then releases.\<close>

definition gesture_cycle :: "rat \<Rightarrow> gesture \<Rightarrow> card \<Rightarrow> outcome" where
  "gesture_cycle SCREEN_WIDTH g c =
     onPanResponderRelease SCREEN_WIDTH g (onPanResponderMove g c)"


section \<open>Export to the device library (useSaveToGallery)\<close>

datatype PermissionStatus = granted | denied | undetermined

record PermissionResponse =
  canAskAgain :: bool
  status :: PermissionStatus

text \<open>
  The expo-media-library module as the hook uses it: each call either throws or returns.
  The argument of the two permission calls is writeOnly.
\<close>

record MediaLibrary =
  getPermissionsAsync :: "bool \<Rightarrow> exn + PermissionResponse"
  requestPermissionsAsync :: "bool \<Rightarrow> exn + PermissionResponse"
  saveToLibraryAsync :: "string \<Rightarrow> exn + unit"

text \<open>
  The trace of calls that leave the screen: an invocation of saveToGallery with its
  argument, and the calls into the media library made on its behalf.
\<close>

datatype effect =
    SaveToGallery string
  | GetPermissions bool
  | RequestPermissions bool
  | SaveToLibrary string

definition requestPermission :: "MediaLibrary \<Rightarrow> effect list \<times> (exn + bool)" where
  "requestPermission ml =
     ([RequestPermissions True],
      (case requestPermissionsAsync ml True of
         Inl e \<Rightarrow> Inr False
       | Inr r \<Rightarrow> Inr (status r = granted)))"

text \<open>The await of saveToLibraryAsync and the return true after it.\<close>

definition copy_step :: "MediaLibrary \<Rightarrow> string \<Rightarrow> effect list \<Rightarrow> effect list \<times> (exn + bool)" where
  "copy_step ml imageUri trace =
     (case saveToLibraryAsync ml imageUri of
        Inl e \<Rightarrow> (trace @ [SaveToLibrary imageUri], Inl e)
      | Inr u \<Rightarrow> (trace @ [SaveToLibrary imageUri], Inr True))"

text \<open>The body of the try block of saveToGallery; Inl is a throw inside it.\<close>

definition saveToGallery_try :: "MediaLibrary \<Rightarrow> string \<Rightarrow> effect list \<times> (exn + bool)" where
  "saveToGallery_try ml imageUri =
     (case getPermissionsAsync ml True of
        Inl e \<Rightarrow> ([GetPermissions True], Inl e)
      | Inr r \<Rightarrow>
          if status r \<noteq> granted then
            (if canAskAgain r then
               (case requestPermission ml of
                  (trace, Inl e) \<Rightarrow> (GetPermissions True # trace, Inl e)
                | (trace, Inr permitted) \<Rightarrow>
                    if \<not> permitted then (GetPermissions True # trace, Inr False)
                    else copy_step ml imageUri (GetPermissions True # trace))
             else ([GetPermissions True], Inr False))
          else copy_step ml imageUri [GetPermissions True])"

text \<open>saveToGallery: the try block with its catch, which returns false.\<close>

definition saveToGallery :: "MediaLibrary \<Rightarrow> string \<Rightarrow> effect list \<times> (exn + bool)" where
  "saveToGallery ml imageUri =
     (case saveToGallery_try ml imageUri of
        (trace, Inl e) \<Rightarrow> (SaveToGallery imageUri # trace, Inr False)
      | (trace, Inr b) \<Rightarrow> (SaveToGallery imageUri # trace, Inr b))"

text \<open>What a trace shows: the arguments of the calls of saveToGallery, and of the copies.\<close>

fun exports :: "effect list \<Rightarrow> string list" where
  "exports [] = []"
| "exports (SaveToGallery u # es) = u # exports es"
| "exports (e # es) = exports es"

fun copies :: "effect list \<Rightarrow> string list" where
  "copies [] = []"
| "copies (SaveToLibrary u # es) = u # copies es"
| "copies (e # es) = copies es"

section \<open>Durable storage (AsyncStorage, JSON)\<close>

type_synonym disk = "string \<Rightarrow> string option"

text \<open>
  The storage provider: setItem and getItem either throw or return; setItem may change
  what the device holds.
\<close>

record AsyncStorage =
  setItem :: "string \<Rightarrow> string \<Rightarrow> disk \<Rightarrow> (exn + unit) \<times> disk"
  getItem :: "string \<Rightarrow> disk \<Rightarrow> exn + string option"

text \<open>
  The stand-in object of galleryStore.ts: setItem only writes a line to the console,
  getItem returns null.
\<close>

definition mock :: AsyncStorage where
  "mock = \<lparr>setItem = (\<lambda>key value d. (Inr (), d)), getItem = (\<lambda>key d. Inr None)\<rparr>"

text \<open>A provider that works as the platform module does: setItem stores, getItem reads.\<close>

definition device_storage :: AsyncStorage where
  "device_storage =
     \<lparr>setItem = (\<lambda>key value d. (Inr (), d(key \<mapsto> value))), getItem = (\<lambda>key d. Inr (d key))\<rparr>"

text \<open>
  The try/catch around require at module load: the argument is the module that require
  yields, None when it throws.
\<close>

definition AsyncStorage_init :: "AsyncStorage option \<Rightarrow> AsyncStorage" where
  "AsyncStorage_init required = (case required of Some m \<Rightarrow> m | None \<Rightarrow> mock)"

text \<open>
  A value that JSON text denotes. JSON.parse yields any such value, whatever the caller
  declares; the numbers of a Photo are integers, embedded in the rationals.
\<close>

datatype json =
    JNull
  | JBool bool
  | JNumber rat
  | JString string
  | JArray "json list"
  | JObject "(string \<times> json) list"

text \<open>The value of a Photo, with the keys of the interface in their order, and of an array.\<close>

definition photo_value :: "Photo \<Rightarrow> json" where
  "photo_value p =
     JObject [(''id'', JString (id_str p)), (''uri'', JString (uri p)),
              (''timestamp'', JNumber (of_nat (timestamp p)))]"

definition photos_value :: "Photo list \<Rightarrow> json" where
  "photos_value ps = JArray (map photo_value ps)"


text \<open>
  JSON.stringify, applied by the store to its array of photos, and JSON.parse of the
  platform: parse throws on text that is not JSON and yields the value otherwise.
\<close>

record JSON =
  stringify :: "Photo list \<Rightarrow> string"
  parse :: "string \<Rightarrow> exn + json"

definition STORAGE_KEY :: string where
  "STORAGE_KEY = ''@appwha_gallery''"

definition savePhotosToStorage ::
  "AsyncStorage \<Rightarrow> JSON \<Rightarrow> Photo list \<Rightarrow> disk \<Rightarrow> (exn + unit) \<times> disk" where
  "savePhotosToStorage A J photos d =
     (case setItem A STORAGE_KEY (stringify J photos) d of
        (Inl e, d') \<Rightarrow> (Inr (), d')
      | (Inr u, d') \<Rightarrow> (Inr (), d'))"

text \<open>
  The body of the try block of loadPhotosFromStorage; the empty string is falsy. What
  parse yields is returned as it is; the literal [] is the empty array.
\<close>

definition loadPhotosFromStorage_try :: "AsyncStorage \<Rightarrow> JSON \<Rightarrow> disk \<Rightarrow> exn + json" where
  "loadPhotosFromStorage_try A J d =
     (case getItem A STORAGE_KEY d of
        Inl e \<Rightarrow> Inl e
      | Inr stored \<Rightarrow>
          (case stored of
             None \<Rightarrow> Inr (JArray [])
           | Some str \<Rightarrow> if str \<noteq> [] then parse J str else Inr (JArray [])))"

definition loadPhotosFromStorage :: "AsyncStorage \<Rightarrow> JSON \<Rightarrow> disk \<Rightarrow> exn + json" where
  "loadPhotosFromStorage A J d =
     (case loadPhotosFromStorage_try A J d of
        Inl e \<Rightarrow> Inr (JArray [])
      | Inr v \<Rightarrow> Inr v)"

section \<open>The gallery store (galleryStore.ts)\<close>

text \<open>
  The module state: the global array, what the device storage holds, and the number of
  calls of notifyListeners made so far (the registry itself is modelled further down).
  A write started by a mutation is taken to complete before the next step.
\<close>

record store =
  globalPhotos :: "Photo list"
  disk :: disk
  notified :: nat

definition initial_store :: "disk \<Rightarrow> store" where
  "initial_store d = \<lparr>globalPhotos = [], disk = d, notified = 0\<rparr>"

text \<open>What a component gets from useState(globalPhotos) when it mounts.\<close>

definition useGalleryStore_photos :: "store \<Rightarrow> Photo list" where
  "useGalleryStore_photos s = globalPhotos s"

text \<open>
  Decimal text of a non-negative integer, as a template literal prints Date.now();
  digit_char is only applied to numbers below 10.
\<close>

definition digit_char :: "nat \<Rightarrow> char" where
  "digit_char k = ''0123456789'' ! k"

fun show_nat :: "nat \<Rightarrow> string" where
  "show_nat n = (if n < 10 then [digit_char n] else show_nat (n div 10) @ [digit_char (n mod 10)])"

declare show_nat.simps [simp del]

text \<open>
  What one call of addPhoto reads from its environment: Date.now() for the id, the text
  that the template literal prints for Math.random(), and Date.now() for the timestamp.
\<close>

record add_env =
  now_id :: nat
  random_text :: string
  now_ts :: nat

definition new_id :: "add_env \<Rightarrow> string" where
  "new_id e = ''photo-'' @ show_nat (now_id e) @ ''-'' @ random_text e"

definition newPhoto :: "add_env \<Rightarrow> string \<Rightarrow> Photo" where
  "newPhoto e u = \<lparr>id_str = new_id e, uri = u, timestamp = now_ts e\<rparr>"

text \<open>
  The three mutations. The first component of the result of addPhoto is what the call
  returns to its caller: None is undefined, the value of a function without a return.
\<close>

definition addPhoto ::
  "AsyncStorage \<Rightarrow> JSON \<Rightarrow> add_env \<Rightarrow> string \<Rightarrow> store \<Rightarrow> Photo option \<times> store" where
  "addPhoto A J e u s =
     (let s1 = s\<lparr>globalPhotos := newPhoto e u # globalPhotos s\<rparr>;
          s2 = s1\<lparr>disk := snd (savePhotosToStorage A J (globalPhotos s1) (disk s1))\<rparr>;
          s3 = s2\<lparr>notified := notified s2 + 1\<rparr>
      in (None, s3))"

definition removePhoto :: "AsyncStorage \<Rightarrow> JSON \<Rightarrow> string \<Rightarrow> store \<Rightarrow> store" where
  "removePhoto A J i s =
     (let s1 = s\<lparr>globalPhotos := filter (\<lambda>p. id_str p \<noteq> i) (globalPhotos s)\<rparr>;
          s2 = s1\<lparr>disk := snd (savePhotosToStorage A J (globalPhotos s1) (disk s1))\<rparr>
      in s2\<lparr>notified := notified s2 + 1\<rparr>)"

definition clearPhotos :: "AsyncStorage \<Rightarrow> JSON \<Rightarrow> store \<Rightarrow> store" where
  "clearPhotos A J s =
     (let s1 = s\<lparr>globalPhotos := []\<rparr>;
          s2 = s1\<lparr>disk := snd (savePhotosToStorage A J (globalPhotos s1) (disk s1))\<rparr>
      in s2\<lparr>notified := notified s2 + 1\<rparr>)"

text \<open>A sequence of addPhoto calls, each with its environment and its uri.\<close>

fun add_all :: "AsyncStorage \<Rightarrow> JSON \<Rightarrow> (add_env \<times> string) list \<Rightarrow> store \<Rightarrow> store" where
  "add_all A J [] s = s"
| "add_all A J ((e, u) # calls) s = add_all A J calls (snd (addPhoto A J e u s))"

section \<open>Start of the process (RootLayout, useInitializeStore)\<close>

text \<open>
  useInitializeStore.ts has a global array (declared any[]) and a listener set of its
  own; initialize assigns what the load yields to that array.
\<close>

record initializer =
  globalPhotos_init :: json
  notified_init :: nat

definition initialize :: "AsyncStorage \<Rightarrow> JSON \<Rightarrow> disk \<Rightarrow> initializer \<Rightarrow> initializer" where
  "initialize A J d m =
     (case loadPhotosFromStorage A J d of
        Inl e \<Rightarrow> m
      | Inr storedPhotos \<Rightarrow>
          (let m1 = m\<lparr>globalPhotos_init := storedPhotos\<rparr>
           in m1\<lparr>notified_init := notified_init m1 + 1\<rparr>))"

text \<open>initializeApp of RootLayout awaits the load inside a try and does nothing else.\<close>

definition initializeApp :: "AsyncStorage \<Rightarrow> JSON \<Rightarrow> store \<Rightarrow> store" where
  "initializeApp A J s =
     (case loadPhotosFromStorage A J (disk s) of
        Inl e \<Rightarrow> s
      | Inr photos \<Rightarrow> s)"

text \<open>
  The two modules at process start, and the start itself: the effect of RootLayout runs;
  the effect of useInitializeStore runs if a mounted component calls the hook.
\<close>

record app =
  gallery :: store
  init_module :: initializer

definition process_start :: "disk \<Rightarrow> app" where
  "process_start d =
     \<lparr>gallery = initial_store d,
      init_module = \<lparr>globalPhotos_init = JArray [], notified_init = 0\<rparr>\<rparr>"

definition startup :: "AsyncStorage \<Rightarrow> JSON \<Rightarrow> bool \<Rightarrow> disk \<Rightarrow> app" where
  "startup A J hook_mounted d =
     (let a = process_start d;
          a1 = a\<lparr>gallery := initializeApp A J (gallery a)\<rparr>
      in if hook_mounted
         then a1\<lparr>init_module := initialize A J (disk (gallery a1)) (init_module a1)\<rparr>
         else a1)"

section \<open>Review screen (GalleryScreen)\<close>

text \<open>
  The state of one render of the screen: the snapshot of the photos that the render
  closed over, the index and the view mode.
\<close>

record screen =
  photos :: "Photo list"
  currentIndex :: nat
  viewMode :: ViewMode

text \<open>photos[currentIndex]; None is undefined.\<close>

definition currentPhoto :: "screen \<Rightarrow> Photo option" where
  "currentPhoto sc =
     (if currentIndex sc < length (photos sc) then Some (photos sc ! currentIndex sc) else None)"

definition moveToNext :: "screen \<Rightarrow> screen" where
  "moveToNext sc =
     (if int (currentIndex sc) < int (length (photos sc)) - 1
      then sc\<lparr>currentIndex := currentIndex sc + 1\<rparr>
      else (sc\<lparr>viewMode := grid\<rparr>)\<lparr>currentIndex := 0\<rparr>)"

definition handleSwipeRight ::
  "MediaLibrary \<Rightarrow> screen \<Rightarrow> store \<Rightarrow> effect list \<times> screen \<times> store" where
  "handleSwipeRight ml sc s =
     (case currentPhoto sc of
        Some p \<Rightarrow> (fst (saveToGallery ml (uri p)), moveToNext sc, s)
      | None \<Rightarrow> ([], moveToNext sc, s))"

definition handleSwipeLeft ::
  "AsyncStorage \<Rightarrow> JSON \<Rightarrow> screen \<Rightarrow> store \<Rightarrow> effect list \<times> screen \<times> store" where
  "handleSwipeLeft A J sc s =
     (let s1 = (case currentPhoto sc of
                  Some p \<Rightarrow> removePhoto A J (id_str p) s
                | None \<Rightarrow> s)
      in if length (photos sc) = 1
         then ([], (sc\<lparr>viewMode := grid\<rparr>)\<lparr>currentIndex := 0\<rparr>, s1)
         else ([], moveToNext sc, s1))"

text \<open>
  The listener of the store, run for the screen after a notification: the next render
  sees a copy of the global array.
\<close>

definition rerender :: "store \<Rightarrow> screen \<Rightarrow> screen" where
  "rerender s sc = sc\<lparr>photos := globalPhotos s\<rparr>"

text \<open>The screen passes handleSwipeLeft and handleSwipeRight to the card as its props.\<close>

fun run_callback ::
  "MediaLibrary \<Rightarrow> AsyncStorage \<Rightarrow> JSON \<Rightarrow> callback \<Rightarrow> screen \<Rightarrow> store \<Rightarrow>
   effect list \<times> screen \<times> store" where
  "run_callback ml A J onSwipeLeft sc s = handleSwipeLeft A J sc s"
| "run_callback ml A J onSwipeRight sc s = handleSwipeRight ml sc s"

fun run_callbacks ::
  "MediaLibrary \<Rightarrow> AsyncStorage \<Rightarrow> JSON \<Rightarrow> callback list \<Rightarrow> screen \<Rightarrow> store \<Rightarrow>
   effect list \<times> screen \<times> store" where
  "run_callbacks ml A J [] sc s = ([], sc, s)"
| "run_callbacks ml A J (cb # cbs) sc s =
     (case run_callback ml A J cb sc s of
        (trace, sc1, s1) \<Rightarrow>
          (case run_callbacks ml A J cbs (rerender s1 sc1) s1 of
             (trace2, sc2, s2) \<Rightarrow> (trace @ trace2, sc2, s2)))"

text \<open>
  One gesture on the card of the current photo, from the drag to the end of the
  animation, with the callbacks that the card fired run by the screen.
\<close>

definition review_gesture ::
  "rat \<Rightarrow> MediaLibrary \<Rightarrow> AsyncStorage \<Rightarrow> JSON \<Rightarrow> gesture \<Rightarrow> card \<Rightarrow> screen \<Rightarrow> store \<Rightarrow>
   callback list \<times> effect list \<times> screen \<times> store" where
  "review_gesture W ml A J g c sc s =
     (let out = gesture_cycle W g c
      in (fired out, run_callbacks ml A J (fired out) sc s))"

section \<open>Listener registry (Set of listeners, notifyListeners)\<close>


definition Set_has :: "nat \<Rightarrow> nat option list \<Rightarrow> bool" where
  "Set_has l es = (Some l \<in> set es)"

definition Set_add :: "nat \<Rightarrow> nat option list \<Rightarrow> nat option list" where
  "Set_add l es = (if Set_has l es then es else es @ [Some l])"

definition Set_delete :: "nat \<Rightarrow> nat option list \<Rightarrow> nat option list" where
  "Set_delete l es = map (\<lambda>e. if e = Some l then None else e) es"

text \<open>The values of the Set, in iteration order.\<close>

fun Set_values :: "nat option list \<Rightarrow> nat list" where
  "Set_values [] = []"
| "Set_values (None # es) = Set_values es"
| "Set_values (Some l # es) = l # Set_values es"







section \<open>Example values\<close>

text \<open>
  The environments of two captures, the photos they make of file://a and file://b, a
  media library that grants the permission and copies, and a JSON codec that reads the
  texts [], null and 17 and throws on every other text.
\<close>

definition env_a :: add_env where
  "env_a = \<lparr>now_id = 1704621234567, random_text = ''0.5247'', now_ts = 1704621234567\<rparr>"

definition env_b :: add_env where
  "env_b = \<lparr>now_id = 1704621239015, random_text = ''0.8103'', now_ts = 1704621239016\<rparr>"

definition photo_a :: Photo where
  "photo_a =
     \<lparr>id_str = ''photo-1704621234567-0.5247'', uri = ''file://a'', timestamp = 1704621234567\<rparr>"

definition photo_b :: Photo where
  "photo_b =
     \<lparr>id_str = ''photo-1704621239015-0.8103'', uri = ''file://b'', timestamp = 1704621239016\<rparr>"

definition granting :: MediaLibrary where
  "granting =
     \<lparr>getPermissionsAsync = (\<lambda>w. Inr \<lparr>canAskAgain = True, status = granted\<rparr>),
      requestPermissionsAsync = (\<lambda>w. Inr \<lparr>canAskAgain = True, status = granted\<rparr>),
      saveToLibraryAsync = (\<lambda>v. Inr ())\<rparr>"

definition example_json :: JSON where
  "example_json =
     \<lparr>stringify = (\<lambda>ps. if ps = [] then ''[]'' else ''[...]''),
      parse = (\<lambda>str. if str = ''[]'' then Inr (JArray [])
                       else if str = ''null'' then Inr JNull
                       else if str = ''17'' then Inr (JNumber 17)
                       else Inl (Exn ''SyntaxError''))\<rparr>"



section \<open>Properties of the swipe decision engine\<close>

text \<open>
  C3. On release with displacement dx and velocity vx, threshold T = 100 and V = 0.5:
  if vx > V or dx > T the card is dismissed to the right and onSwipeRight is the callback
  fired; else if vx < -V or dx < -T it is dismissed to the left and onSwipeLeft is fired;
  else the card springs back to the origin, where it comes to rest, and no callback
  fires. After a dismissal too the card is set back to the origin. The four releases
  (150, 0), (-150, 0), (50, 0) and (10, 0.6) commit right, commit left, return to the
  origin and commit right.
\<close>

theorem release_thresholds:
  "SWIPE_THRESHOLD = 100 \<and>
   (vx g > 0.5 \<or> dx g > 100 \<longrightarrow>
      anim (onPanResponderRelease W g c) = Timing (W * 1.5) \<and>
      fired (onPanResponderRelease W g c) = [onSwipeRight]) \<and>
   (\<not> (vx g > 0.5 \<or> dx g > 100) \<and> (vx g < - 0.5 \<or> dx g < - 100) \<longrightarrow>
      anim (onPanResponderRelease W g c) = Timing (- W * 1.5) \<and>
      fired (onPanResponderRelease W g c) = [onSwipeLeft]) \<and>
   (\<not> (vx g > 0.5 \<or> dx g > 100) \<and> \<not> (vx g < - 0.5 \<or> dx g < - 100) \<longrightarrow>
      anim (onPanResponderRelease W g c) = Spring \<and>
      fired (onPanResponderRelease W g c) = [] \<and>
      translateX (final (onPanResponderRelease W g c)) = 0 \<and>
      translateY (final (onPanResponderRelease W g c)) = 0 \<and>
      final (gesture_cycle W g c) = c\<lparr>translateX := 0, translateY := 0\<rparr>) \<and>
   translateX (final (onPanResponderRelease W g c)) = 0 \<and>
   translateY (final (onPanResponderRelease W g c)) = 0 \<and>
   translateX (onPanResponderMove g c) = dx g \<and>
   translateY (onPanResponderMove g c) = dy g \<and>
   fired (onPanResponderRelease 400 \<lparr>dx = 150, dy = 0, vx = 0\<rparr> c) = [onSwipeRight] \<and>
   fired (onPanResponderRelease 400 \<lparr>dx = - 150, dy = 0, vx = 0\<rparr> c) = [onSwipeLeft] \<and>
   fired (onPanResponderRelease 400 \<lparr>dx = 50, dy = 0, vx = 0\<rparr> c) = [] \<and>
   anim (onPanResponderRelease 400 \<lparr>dx = 50, dy = 0, vx = 0\<rparr> c) = Spring \<and>
   final (gesture_cycle 400 \<lparr>dx = 50, dy = 7, vx = 0\<rparr> \<lparr>translateX = 0, translateY = 0\<rparr>)
     = \<lparr>translateX = 0, translateY = 0\<rparr> \<and>
   fired (onPanResponderRelease 400 \<lparr>dx = 10, dy = 0, vx = 0.6\<rparr> c) = [onSwipeRight]"
  by (simp add: onPanResponderRelease_def SWIPE_THRESHOLD_def dismissRight_def
      dismissLeft_def resetPosition_def gesture_cycle_def onPanResponderMove_def Let_def)

theorem release_thresholds_witness:
  "(vx \<lparr>dx = 20, dy = 3, vx = - 0.7\<rparr> < - 0.5) \<and>
   fired (onPanResponderRelease 400 \<lparr>dx = 20, dy = 3, vx = - 0.7\<rparr>
            \<lparr>translateX = 20, translateY = 3\<rparr>) = [onSwipeLeft] \<and>
   anim (onPanResponderRelease 400 \<lparr>dx = 20, dy = 3, vx = - 0.7\<rparr>
            \<lparr>translateX = 20, translateY = 3\<rparr>) = Timing (- 600) \<and>
   anim (onPanResponderRelease 400 \<lparr>dx = 50, dy = 7, vx = 0\<rparr>
            \<lparr>translateX = 50, translateY = 7\<rparr>) = Spring \<and>
   final (onPanResponderRelease 400 \<lparr>dx = 50, dy = 7, vx = 0\<rparr>
            \<lparr>translateX = 50, translateY = 7\<rparr>) = \<lparr>translateX = 0, translateY = 0\<rparr>"
  using release_thresholds [of "\<lparr>dx = 20, dy = 3, vx = - 0.7\<rparr>" 400
      "\<lparr>translateX = 20, translateY = 3\<rparr>"]
    release_thresholds [of "\<lparr>dx = 50, dy = 7, vx = 0\<rparr>" 400
      "\<lparr>translateX = 50, translateY = 7\<rparr>"]
  by simp

section \<open>Properties of the export gate\<close>

text \<open>
  C8. saveToGallery never throws. When the permission is not granted and either it cannot
  be asked again or the request is denied (or the request throws), it returns false and
  no copy is attempted. It returns true only when the copy was made and did not throw. A
  throw of the permission query or of the copy yields false.
\<close>

theorem saveToGallery_contract:
  "(\<exists>b. snd (saveToGallery ml u) = Inr b) \<and>
   (getPermissionsAsync ml True = Inr r \<and> status r \<noteq> granted \<and>
      (\<not> canAskAgain r \<or>
       (requestPermissionsAsync ml True = Inr r' \<and> status r' \<noteq> granted)) \<longrightarrow>
      snd (saveToGallery ml u) = Inr False \<and>
      (\<forall>v. SaveToLibrary v \<notin> set (fst (saveToGallery ml u)))) \<and>
   (snd (saveToGallery ml u) = Inr True \<longrightarrow>
      saveToLibraryAsync ml u = Inr () \<and>
      SaveToLibrary u \<in> set (fst (saveToGallery ml u))) \<and>
   (isl (getPermissionsAsync ml True) \<longrightarrow> snd (saveToGallery ml u) = Inr False) \<and>
   (getPermissionsAsync ml True = Inr r \<and> status r \<noteq> granted \<and> canAskAgain r \<and>
      isl (requestPermissionsAsync ml True) \<longrightarrow>
      snd (saveToGallery ml u) = Inr False \<and>
      (\<forall>v. SaveToLibrary v \<notin> set (fst (saveToGallery ml u)))) \<and>
   (isl (saveToLibraryAsync ml u) \<longrightarrow> snd (saveToGallery ml u) = Inr False)"
  by (auto simp: saveToGallery_def saveToGallery_try_def requestPermission_def copy_step_def
      isl_def split: sum.splits prod.splits if_splits)

theorem saveToGallery_contract_witness:
  "saveToGallery
     \<lparr>getPermissionsAsync = (\<lambda>w. Inr \<lparr>canAskAgain = True, status = undetermined\<rparr>),
      requestPermissionsAsync = (\<lambda>w. Inr \<lparr>canAskAgain = False, status = denied\<rparr>),
      saveToLibraryAsync = (\<lambda>v. Inr ())\<rparr> ''file://a''
   = ([SaveToGallery ''file://a'', GetPermissions True, RequestPermissions True], Inr False)"
  using saveToGallery_contract [of
      "\<lparr>getPermissionsAsync = (\<lambda>w. Inr \<lparr>canAskAgain = True, status = undetermined\<rparr>),
        requestPermissionsAsync = (\<lambda>w. Inr \<lparr>canAskAgain = False, status = denied\<rparr>),
        saveToLibraryAsync = (\<lambda>v. Inr ())\<rparr>" "''file://a''"
      "\<lparr>canAskAgain = True, status = undetermined\<rparr>"
      "\<lparr>canAskAgain = False, status = denied\<rparr>"]
  by (simp add: saveToGallery_def saveToGallery_try_def requestPermission_def)

section \<open>Properties of durable storage\<close>




text \<open>
  C10. When require throws, the store runs on the stand-in: getItem yields null, setItem
  leaves the device storage as it was, savePhotosToStorage resolves without a change of
  the storage, and loadPhotosFromStorage resolves to the empty array.
\<close>

theorem mock_storage:
  "AsyncStorage_init None = mock \<and>
   getItem (AsyncStorage_init None) key d = Inr None \<and>
   setItem (AsyncStorage_init None) key val d = (Inr (), d) \<and>
   savePhotosToStorage (AsyncStorage_init None) J ps d = (Inr (), d) \<and>
   loadPhotosFromStorage (AsyncStorage_init None) J d = Inr (JArray [])"
  by (simp add: AsyncStorage_init_def mock_def savePhotosToStorage_def
      loadPhotosFromStorage_def loadPhotosFromStorage_try_def)

section \<open>Properties of the start of the process\<close>

lemma startup_gallery: "gallery (startup A J hook_mounted d) = initial_store d"
  by (simp add: startup_def process_start_def initializeApp_def Let_def split: sum.splits)

text \<open>
  C2. With one photo persisted under the key, the load at start yields that photo, but
  the array of the gallery store, which its consumers read, is still empty after the
  start, whether or not useInitializeStore is mounted.
\<close>

theorem startup_leaves_gallery_empty:
  "loadPhotosFromStorage device_storage
     \<lparr>stringify = (\<lambda>ps. ''[photo-17-0.5247,file://a,17]''),
      parse = (\<lambda>str. if str = ''[photo-17-0.5247,file://a,17]''
                       then Inr (JArray [photo_value
                         \<lparr>id_str = ''photo-17-0.5247'', uri = ''file://a'', timestamp = 17\<rparr>])
                       else Inl (Exn ''SyntaxError''))\<rparr>
     [STORAGE_KEY \<mapsto> ''[photo-17-0.5247,file://a,17]'']
     = Inr (photos_value
         [\<lparr>id_str = ''photo-17-0.5247'', uri = ''file://a'', timestamp = 17\<rparr>]) \<and>
   useGalleryStore_photos (gallery (startup device_storage
     \<lparr>stringify = (\<lambda>ps. ''[photo-17-0.5247,file://a,17]''),
      parse = (\<lambda>str. if str = ''[photo-17-0.5247,file://a,17]''
                       then Inr (JArray [photo_value
                         \<lparr>id_str = ''photo-17-0.5247'', uri = ''file://a'', timestamp = 17\<rparr>])
                       else Inl (Exn ''SyntaxError''))\<rparr>
     hook_mounted
     [STORAGE_KEY \<mapsto> ''[photo-17-0.5247,file://a,17]''])) = []"
  by (simp add: startup_gallery useGalleryStore_photos_def initial_store_def
      loadPhotosFromStorage_def loadPhotosFromStorage_try_def device_storage_def
      photos_value_def)

section \<open>Properties of the review screen\<close>

lemma copies_append: "copies (xs @ ys) = copies xs @ copies ys"
  by (induction xs rule: copies.induct) auto

lemma exports_append: "exports (xs @ ys) = exports xs @ exports ys"
  by (induction xs rule: exports.induct) auto

lemma exports_saveToGallery: "exports (fst (saveToGallery ml u)) = [u]"
  by (auto simp: saveToGallery_def saveToGallery_try_def requestPermission_def copy_step_def
      exports_append split: sum.splits prod.splits)

lemma copies_saveToGallery: "length (copies (fst (saveToGallery ml u))) \<le> 1"
  by (auto simp: saveToGallery_def saveToGallery_try_def requestPermission_def copy_step_def
      copies_append split: sum.splits prod.splits)

lemma copies_saveToGallery_set: "set (copies (fst (saveToGallery ml u))) \<subseteq> {u}"
  by (auto simp: saveToGallery_def saveToGallery_try_def requestPermission_def copy_step_def
      copies_append split: sum.splits prod.splits if_splits)

lemma copies_saveToGallery_done:
  "snd (saveToGallery ml u) = Inr True \<Longrightarrow> copies (fst (saveToGallery ml u)) = [u]"
  by (auto simp: saveToGallery_def saveToGallery_try_def requestPermission_def copy_step_def
      copies_append split: sum.splits prod.splits if_splits)

lemma hd_saveToGallery: "hd (fst (saveToGallery ml u)) = SaveToGallery u"
  by (auto simp: saveToGallery_def split: sum.splits prod.splits)

text \<open>
  C1, as the claim states it, fails: after a commit to the right on the only photo, with
  the export granted and done, the photo is still in the collection.
\<close>

theorem commit_right_keeps_photo:
  "SaveToGallery ''file://a'' \<in> set (fst (handleSwipeRight granting
       \<lparr>photos = [photo_a], currentIndex = 0, viewMode = swipe\<rparr>
       \<lparr>globalPhotos = [photo_a], disk = Map.empty, notified = 0\<rparr>)) \<and>
   photo_a \<in> set (globalPhotos (snd (snd (handleSwipeRight granting
       \<lparr>photos = [photo_a], currentIndex = 0, viewMode = swipe\<rparr>
       \<lparr>globalPhotos = [photo_a], disk = Map.empty, notified = 0\<rparr>))))"
  by (simp add: handleSwipeRight_def currentPhoto_def photo_a_def saveToGallery_def
      saveToGallery_try_def granting_def copy_step_def)

text \<open>
  C1, amended. A commit to the right on the current photo calls saveToGallery with the
  uri of that photo, once and before anything else, leaves the store as it was, and moves
  the cursor on: to the next index when a photo follows, else to index 0 in grid mode.
\<close>

theorem handleSwipeRight_exports_then_advances:
  "currentPhoto sc = Some p \<Longrightarrow>
   fst (handleSwipeRight ml sc s) = fst (saveToGallery ml (uri p)) \<and>
   hd (fst (handleSwipeRight ml sc s)) = SaveToGallery (uri p) \<and>
   exports (fst (handleSwipeRight ml sc s)) = [uri p] \<and>
   snd (snd (handleSwipeRight ml sc s)) = s \<and>
   fst (snd (handleSwipeRight ml sc s)) = moveToNext sc \<and>
   (currentIndex sc + 1 < length (photos sc) \<longrightarrow>
      currentIndex (moveToNext sc) = currentIndex sc + 1 \<and>
      viewMode (moveToNext sc) = viewMode sc) \<and>
   (\<not> currentIndex sc + 1 < length (photos sc) \<longrightarrow>
      currentIndex (moveToNext sc) = 0 \<and> viewMode (moveToNext sc) = grid)"
  by (auto simp: handleSwipeRight_def moveToNext_def exports_saveToGallery hd_saveToGallery)

theorem handleSwipeRight_exports_then_advances_witness:
  "fst (snd (handleSwipeRight granting
       \<lparr>photos = [photo_a], currentIndex = 0, viewMode = swipe\<rparr>
       \<lparr>globalPhotos = [photo_a], disk = Map.empty, notified = 0\<rparr>))
     = \<lparr>photos = [photo_a], currentIndex = 0, viewMode = grid\<rparr> \<and>
   snd (snd (handleSwipeRight granting
       \<lparr>photos = [photo_a], currentIndex = 0, viewMode = swipe\<rparr>
       \<lparr>globalPhotos = [photo_a], disk = Map.empty, notified = 0\<rparr>))
     = \<lparr>globalPhotos = [photo_a], disk = Map.empty, notified = 0\<rparr> \<and>
   exports (fst (handleSwipeRight granting
       \<lparr>photos = [photo_a], currentIndex = 0, viewMode = swipe\<rparr>
       \<lparr>globalPhotos = [photo_a], disk = Map.empty, notified = 0\<rparr>)) = [''file://a'']"
  using handleSwipeRight_exports_then_advances [of
      "\<lparr>photos = [photo_a], currentIndex = 0, viewMode = swipe\<rparr>" photo_a granting
      "\<lparr>globalPhotos = [photo_a], disk = Map.empty, notified = 0\<rparr>"]
  by (simp add: currentPhoto_def moveToNext_def photo_a_def exports_saveToGallery)

text \<open>
  C5. In one gesture cycle a release that commits to the right fires onSwipeRight and
  nothing else, a release that commits to the left fires onSwipeLeft and nothing else,
  and a release that returns to the origin fires nothing; so a dismissal fires exactly
  one callback and the two callbacks never both fire. The screen, run on the callbacks
  of the cycle, calls saveToGallery exactly once, with the uri of the current photo, on a
  commit to the right, and copies at most once, that uri; on a commit to the left and on
  a return it neither calls saveToGallery nor copies.
\<close>

theorem one_callback_per_gesture:
  "(vx g > 0.5 \<or> dx g > 100 \<longrightarrow>
      anim (gesture_cycle W g c) = Timing (W * 1.5) \<and>
      fired (gesture_cycle W g c) = [onSwipeRight]) \<and>
   (\<not> (vx g > 0.5 \<or> dx g > 100) \<and> (vx g < - 0.5 \<or> dx g < - 100) \<longrightarrow>
      anim (gesture_cycle W g c) = Timing (- W * 1.5) \<and>
      fired (gesture_cycle W g c) = [onSwipeLeft]) \<and>
   (\<not> (vx g > 0.5 \<or> dx g > 100) \<and> \<not> (vx g < - 0.5 \<or> dx g < - 100) \<longrightarrow>
      anim (gesture_cycle W g c) = Spring \<and>
      fired (gesture_cycle W g c) = []) \<and>
   (anim (gesture_cycle W g c) \<noteq> Spring \<longrightarrow> length (fired (gesture_cycle W g c)) = 1) \<and>
   (anim (gesture_cycle W g c) = Spring \<longrightarrow> fired (gesture_cycle W g c) = []) \<and>
   \<not> (onSwipeLeft \<in> set (fired (gesture_cycle W g c)) \<and>
      onSwipeRight \<in> set (fired (gesture_cycle W g c))) \<and>
   fst (review_gesture W ml A J g c sc s) = fired (gesture_cycle W g c) \<and>
   length (exports (fst (snd (review_gesture W ml A J g c sc s)))) \<le> 1 \<and>
   length (copies (fst (snd (review_gesture W ml A J g c sc s)))) \<le> 1 \<and>
   ((vx g > 0.5 \<or> dx g > 100) \<and> currentPhoto sc = Some p \<longrightarrow>
      exports (fst (snd (review_gesture W ml A J g c sc s))) = [uri p] \<and>
      set (copies (fst (snd (review_gesture W ml A J g c sc s)))) \<subseteq> {uri p} \<and>
      (snd (saveToGallery ml (uri p)) = Inr True \<longrightarrow>
         copies (fst (snd (review_gesture W ml A J g c sc s))) = [uri p])) \<and>
   (\<not> (vx g > 0.5 \<or> dx g > 100) \<longrightarrow>
      exports (fst (snd (review_gesture W ml A J g c sc s))) = [] \<and>
      copies (fst (snd (review_gesture W ml A J g c sc s))) = [])"
proof -
  have release:
    "(vx g > 0.5 \<or> dx g > 100 \<longrightarrow>
        gesture_cycle W g c = dismissRight W onSwipeRight (onPanResponderMove g c)) \<and>
     (\<not> (vx g > 0.5 \<or> dx g > 100) \<and> (vx g < - 0.5 \<or> dx g < - 100) \<longrightarrow>
        gesture_cycle W g c = dismissLeft W onSwipeLeft (onPanResponderMove g c)) \<and>
     (\<not> (vx g > 0.5 \<or> dx g > 100) \<and> \<not> (vx g < - 0.5 \<or> dx g < - 100) \<longrightarrow>
        gesture_cycle W g c = resetPosition (onPanResponderMove g c))"
    by (simp add: gesture_cycle_def onPanResponderRelease_def SWIPE_THRESHOLD_def)
  have right: "fired (dismissRight W onSwipeRight k) = [onSwipeRight]"
    "anim (dismissRight W onSwipeRight k) = Timing (W * 1.5)" for k
    by (simp_all add: dismissRight_def Let_def)
  have left: "fired (dismissLeft W onSwipeLeft k) = [onSwipeLeft]"
    "anim (dismissLeft W onSwipeLeft k) = Timing (- W * 1.5)" for k
    by (simp_all add: dismissLeft_def Let_def)
  have rest: "fired (resetPosition k) = []" "anim (resetPosition k) = Spring" for k
    by (simp_all add: resetPosition_def)
  have swipe_right: "exports (fst (handleSwipeRight ml sc s)) = [uri p] \<and>
      set (copies (fst (handleSwipeRight ml sc s))) \<subseteq> {uri p} \<and>
      (snd (saveToGallery ml (uri p)) = Inr True \<longrightarrow>
         copies (fst (handleSwipeRight ml sc s)) = [uri p])"
    if "currentPhoto sc = Some p"
    using that
    by (simp add: handleSwipeRight_def exports_saveToGallery copies_saveToGallery_set
        copies_saveToGallery_done)
  have swipe_right_le: "length (exports (fst (handleSwipeRight ml sc s))) \<le> 1 \<and>
      length (copies (fst (handleSwipeRight ml sc s))) \<le> 1"
    using copies_saveToGallery [of ml]
    by (simp add: handleSwipeRight_def exports_saveToGallery split: option.splits)
  have swipe_left: "fst (handleSwipeLeft A J sc s) = []"
    by (simp add: handleSwipeLeft_def Let_def)
  have single: "fst (run_callbacks ml A J [cb] sc s) = fst (run_callback ml A J cb sc s)" for cb
    by (simp split: prod.splits)
  consider (R) "vx g > 0.5 \<or> dx g > 100"
    | (L) "\<not> (vx g > 0.5 \<or> dx g > 100)" "vx g < - 0.5 \<or> dx g < - 100"
    | (B) "\<not> (vx g > 0.5 \<or> dx g > 100)" "\<not> (vx g < - 0.5 \<or> dx g < - 100)"
    by blast
  then show ?thesis
  proof cases
    case R
    with release have "gesture_cycle W g c = dismissRight W onSwipeRight (onPanResponderMove g c)"
      by blast
    with R swipe_right swipe_right_le show ?thesis
      by (simp add: review_gesture_def Let_def right single del: run_callbacks.simps)
  next
    case L
    with release have "gesture_cycle W g c = dismissLeft W onSwipeLeft (onPanResponderMove g c)"
      by blast
    with L swipe_left show ?thesis
      by (simp add: review_gesture_def Let_def left single del: run_callbacks.simps)
  next
    case B
    with release have "gesture_cycle W g c = resetPosition (onPanResponderMove g c)"
      by blast
    with B show ?thesis
      by (simp add: review_gesture_def Let_def rest)
  qed
qed

theorem one_callback_per_gesture_witness:
  "fired (gesture_cycle 400 \<lparr>dx = 150, dy = 4, vx = 0\<rparr> \<lparr>translateX = 0, translateY = 0\<rparr>)
     = [onSwipeRight] \<and>
   exports (fst (snd (review_gesture 400 granting mock example_json
       \<lparr>dx = 150, dy = 4, vx = 0\<rparr> \<lparr>translateX = 0, translateY = 0\<rparr>
       \<lparr>photos = [photo_b, photo_a], currentIndex = 1, viewMode = swipe\<rparr>
       \<lparr>globalPhotos = [photo_b, photo_a], disk = Map.empty, notified = 0\<rparr>))) = [''file://a''] \<and>
   copies (fst (snd (review_gesture 400 granting mock example_json
       \<lparr>dx = 150, dy = 4, vx = 0\<rparr> \<lparr>translateX = 0, translateY = 0\<rparr>
       \<lparr>photos = [photo_b, photo_a], currentIndex = 1, viewMode = swipe\<rparr>
       \<lparr>globalPhotos = [photo_b, photo_a], disk = Map.empty, notified = 0\<rparr>))) = [''file://a''] \<and>
   fired (gesture_cycle 400 \<lparr>dx = - 300, dy = 0, vx = - 2\<rparr> \<lparr>translateX = 0, translateY = 0\<rparr>)
     = [onSwipeLeft] \<and>
   copies (fst (snd (review_gesture 400 granting mock example_json
       \<lparr>dx = - 300, dy = 0, vx = - 2\<rparr> \<lparr>translateX = 0, translateY = 0\<rparr>
       \<lparr>photos = [photo_b, photo_a], currentIndex = 1, viewMode = swipe\<rparr>
       \<lparr>globalPhotos = [photo_b, photo_a], disk = Map.empty, notified = 0\<rparr>))) = [] \<and>
   fired (gesture_cycle 400 \<lparr>dx = 50, dy = 7, vx = 0\<rparr> \<lparr>translateX = 0, translateY = 0\<rparr>)
     = []"
  using one_callback_per_gesture [of "\<lparr>dx = 150, dy = 4, vx = 0\<rparr>" 400
      "\<lparr>translateX = 0, translateY = 0\<rparr>" granting mock example_json
      "\<lparr>photos = [photo_b, photo_a], currentIndex = 1, viewMode = swipe\<rparr>"
      "\<lparr>globalPhotos = [photo_b, photo_a], disk = Map.empty, notified = 0\<rparr>" photo_a]
    one_callback_per_gesture [of "\<lparr>dx = - 300, dy = 0, vx = - 2\<rparr>" 400
      "\<lparr>translateX = 0, translateY = 0\<rparr>" granting mock example_json
      "\<lparr>photos = [photo_b, photo_a], currentIndex = 1, viewMode = swipe\<rparr>"
      "\<lparr>globalPhotos = [photo_b, photo_a], disk = Map.empty, notified = 0\<rparr>" photo_a]
    one_callback_per_gesture [of "\<lparr>dx = 50, dy = 7, vx = 0\<rparr>" 400
      "\<lparr>translateX = 0, translateY = 0\<rparr>" granting mock example_json
      "\<lparr>photos = [photo_b, photo_a], currentIndex = 1, viewMode = swipe\<rparr>"
      "\<lparr>globalPhotos = [photo_b, photo_a], disk = Map.empty, notified = 0\<rparr>" photo_a]
  by (simp add: currentPhoto_def saveToGallery_def saveToGallery_try_def granting_def
      copy_step_def) (simp add: photo_a_def)

section \<open>Properties of the gallery store\<close>

lemma show_nat_numeral:
  "show_nat (numeral k) =
     (if (numeral k :: nat) < 10 then [digit_char (numeral k)]
      else show_nat (numeral k div 10) @ [digit_char (numeral k mod 10)])"
  by (rule show_nat.simps)

lemma show_nat_small: "show_nat 0 = ''0''" "show_nat 1 = ''1''" "show_nat (Suc 0) = ''1''"
  by (simp_all add: show_nat.simps digit_char_def)

lemma new_id_env_a: "new_id env_a = ''photo-1704621234567-0.5247''"
  by (simp add: new_id_def env_a_def show_nat_numeral show_nat_small digit_char_def)

lemma new_id_env_b: "new_id env_b = ''photo-1704621239015-0.8103''"
  by (simp add: new_id_def env_b_def show_nat_numeral show_nat_small digit_char_def)

lemma newPhoto_a: "newPhoto env_a ''file://a'' = photo_a"
  by (simp add: newPhoto_def new_id_env_a photo_a_def) (simp add: env_a_def)

lemma newPhoto_b: "newPhoto env_b ''file://b'' = photo_b"
  by (simp add: newPhoto_def new_id_env_b photo_b_def) (simp add: env_b_def)

lemma globalPhotos_addPhoto:
  "globalPhotos (snd (addPhoto A J e u s)) = newPhoto e u # globalPhotos s"
  by (simp add: addPhoto_def Let_def)

lemma globalPhotos_removePhoto:
  "globalPhotos (removePhoto A J i s) = filter (\<lambda>p. id_str p \<noteq> i) (globalPhotos s)"
  by (simp add: removePhoto_def Let_def)

lemma globalPhotos_add_all:
  "globalPhotos (add_all A J calls s) =
     rev (map (\<lambda>c. newPhoto (fst c) (snd c)) calls) @ globalPhotos s"
  by (induction A J calls s rule: add_all.induct) (simp_all add: globalPhotos_addPhoto)

lemma two_adds:
  "globalPhotos (add_all A J [(env_a, ''file://a''), (env_b, ''file://b'')] (initial_store d))
     = [photo_b, photo_a]"
  by (simp add: globalPhotos_addPhoto newPhoto_a newPhoto_b initial_store_def)

lemma digit_cases:
  "k < 10 \<Longrightarrow> k = 0 \<or> k = 1 \<or> k = 2 \<or> k = 3 \<or> k = 4 \<or> k = 5 \<or> k = 6 \<or> k = 7 \<or> k = 8 \<or> k = (9::nat)"
  by arith

lemma digit_char_not_dash: "k < 10 \<Longrightarrow> digit_char k \<noteq> CHR ''-''"
  using digit_cases [of k] by (auto simp: digit_char_def)

lemma digit_char_inj: "a < 10 \<Longrightarrow> b < 10 \<Longrightarrow> digit_char a = digit_char b \<Longrightarrow> a = b"
  using digit_cases [of a] digit_cases [of b] by (auto simp: digit_char_def)

lemma show_nat_not_Nil: "show_nat n \<noteq> []"
  by (subst show_nat.simps) simp

lemma show_nat_no_dash: "CHR ''-'' \<notin> set (show_nat n)"
proof (induction n rule: show_nat.induct)
  case (1 n)
  show ?case
  proof (cases "n < 10")
    case True
    then show ?thesis
      using digit_char_not_dash [of n] by (subst show_nat.simps) auto
  next
    case False
    then have "CHR ''-'' \<notin> set (show_nat (n div 10))"
      using "1.IH" by simp
    moreover have "digit_char (n mod 10) \<noteq> CHR ''-''"
      by (rule digit_char_not_dash) simp
    ultimately show ?thesis
      using False by (subst show_nat.simps) auto
  qed
qed

lemma show_nat_inj: "show_nat a = show_nat b \<Longrightarrow> a = b"
proof (induction a arbitrary: b rule: show_nat.induct)
  case (1 n)
  show ?case
  proof (cases "n < 10")
    case small_n: True
    show ?thesis
    proof (cases "b < 10")
      case True
      with small_n "1.prems" show ?thesis
        by (simp add: show_nat.simps [of n] show_nat.simps [of b] digit_char_inj)
    next
      case False
      with small_n "1.prems" show ?thesis
        using show_nat_not_Nil [of "b div 10"]
        by (simp add: show_nat.simps [of n] show_nat.simps [of b])
    qed
  next
    case big_n: False
    show ?thesis
    proof (cases "b < 10")
      case True
      with big_n "1.prems" show ?thesis
        using show_nat_not_Nil [of "n div 10"]
        by (simp add: show_nat.simps [of n] show_nat.simps [of b])
    next
      case False
      with big_n "1.prems"
      have parts: "show_nat (n div 10) = show_nat (b div 10)"
        "digit_char (n mod 10) = digit_char (b mod 10)"
        by (simp_all add: show_nat.simps [of n] show_nat.simps [of b])
      from parts(1) big_n have "n div 10 = b div 10"
        by (rule "1.IH" [rotated])
      moreover from parts(2) have "n mod 10 = b mod 10"
        by (intro digit_char_inj) simp_all
      ultimately show ?thesis
        by (metis div_mult_mod_eq)
    qed
  qed
qed

lemma split_at_first:
  "c \<notin> set xs \<Longrightarrow> c \<notin> set xs' \<Longrightarrow> xs @ c # ys = xs' @ c # ys' \<Longrightarrow> xs = xs' \<and> ys = ys'"
proof (induction xs arbitrary: xs')
  case Nil
  then show ?case by (cases xs') auto
next
  case (Cons x xs)
  then show ?case by (cases xs') auto
qed

lemma new_id_inj:
  assumes "new_id e = new_id e'"
  shows "now_id e = now_id e' \<and> random_text e = random_text e'"
proof -
  from assms have "show_nat (now_id e) @ CHR ''-'' # random_text e
      = show_nat (now_id e') @ CHR ''-'' # random_text e'"
    by (simp add: new_id_def)
  then have "show_nat (now_id e) = show_nat (now_id e') \<and> random_text e = random_text e'"
    by (rule split_at_first [OF show_nat_no_dash show_nat_no_dash])
  then show ?thesis
    using show_nat_inj [of "now_id e" "now_id e'"] by blast
qed

lemma distinct_map_finer:
  assumes finer: "\<And>x y. g x = g y \<Longrightarrow> f x = f y"
  shows "distinct (map f xs) \<Longrightarrow> distinct (map g xs)"
proof (induction xs)
  case Nil
  then show ?case by simp
next
  case (Cons x xs)
  have "g x \<notin> g ` set xs"
  proof
    assume "g x \<in> g ` set xs"
    then obtain y where y: "y \<in> set xs" "g x = g y"
      by blast
    from y(2) have "f x = f y"
      by (rule finer)
    with y(1) have "f x \<in> f ` set xs"
      by blast
    with Cons.prems show False
      by simp
  qed
  with Cons show ?case
    by simp
qed

lemma distinct_new_ids:
  assumes "distinct (map (\<lambda>c. (now_id (fst c), random_text (fst c))) calls)"
  shows "distinct (map (\<lambda>c. id_str (newPhoto (fst c) (snd c))) calls)"
  using _ assms
proof (rule distinct_map_finer)
  fix x y :: "add_env \<times> string"
  assume "id_str (newPhoto (fst x) (snd x)) = id_str (newPhoto (fst y) (snd y))"
  then have "new_id (fst x) = new_id (fst y)"
    by (simp add: newPhoto_def)
  then show "(now_id (fst x), random_text (fst x)) = (now_id (fst y), random_text (fst y))"
    using new_id_inj [of "fst x" "fst y"] by simp
qed

text \<open>
  C7, as the claim states it, fails: addPhoto returns nothing, so the caller does not get
  the record it created; and two calls that read the same clock value and the same
  random number make two photos with one id.
\<close>

theorem same_clock_and_random_same_id:
  "fst (addPhoto mock example_json env_a ''file://b'' (initial_store Map.empty))
     \<noteq> Some (hd (globalPhotos
           (snd (addPhoto mock example_json env_a ''file://b'' (initial_store Map.empty))))) \<and>
   \<not> distinct (map id_str (globalPhotos
      (add_all mock example_json [(env_a, ''file://a''), (env_a, ''file://b'')]
         (initial_store Map.empty))))"
proof -
  have "fst (addPhoto mock example_json env_a ''file://b'' (initial_store Map.empty)) = None"
    by (simp add: addPhoto_def Let_def)
  moreover have "map id_str (globalPhotos
      (add_all mock example_json [(env_a, ''file://a''), (env_a, ''file://b'')]
         (initial_store Map.empty))) = [new_id env_a, new_id env_a]"
    by (simp add: globalPhotos_addPhoto initial_store_def newPhoto_def)
  ultimately show ?thesis
    by simp
qed

text \<open>
  C7, amended. addPhoto returns nothing. It puts a new photo in front of the collection,
  with the given uri, the id photo-<clock>-<random> and the clock value as timestamp, so
  that the first element has that uri. For every sequence of addPhoto calls from the
  empty collection the ids are pairwise distinct, provided that no two calls read the
  same pair of clock value and random number for their id.
\<close>

theorem addPhoto_prepends:
  "fst (addPhoto A J e u s) = None \<and>
   globalPhotos (snd (addPhoto A J e u s)) =
     \<lparr>id_str = ''photo-'' @ show_nat (now_id e) @ ''-'' @ random_text e, uri = u,
      timestamp = now_ts e\<rparr> # globalPhotos s \<and>
   uri (hd (globalPhotos (snd (addPhoto A J e u s)))) = u \<and>
   (distinct (map (\<lambda>c. (now_id (fst c), random_text (fst c))) calls) \<longrightarrow>
      distinct (map id_str (globalPhotos (add_all A J calls (initial_store d)))))"
proof -
  have "map id_str (globalPhotos (add_all A J calls (initial_store d)))
      = rev (map (\<lambda>c. id_str (newPhoto (fst c) (snd c))) calls)"
    by (simp add: globalPhotos_add_all initial_store_def rev_map)
  then have ids: "distinct (map (\<lambda>c. (now_id (fst c), random_text (fst c))) calls) \<longrightarrow>
      distinct (map id_str (globalPhotos (add_all A J calls (initial_store d))))"
    using distinct_new_ids [of calls] by simp
  have ret: "fst (addPhoto A J e u s) = None"
    by (simp add: addPhoto_def Let_def)
  have front: "globalPhotos (snd (addPhoto A J e u s)) =
     \<lparr>id_str = ''photo-'' @ show_nat (now_id e) @ ''-'' @ random_text e, uri = u,
      timestamp = now_ts e\<rparr> # globalPhotos s"
    by (simp add: globalPhotos_addPhoto newPhoto_def new_id_def)
  from ret front ids show ?thesis
    by simp
qed


theorem addPhoto_prepends_witness:
  "map id_str (globalPhotos
      (add_all mock example_json [(env_a, ''file://a''), (env_b, ''file://b'')]
         (initial_store Map.empty)))
     = [''photo-1704621239015-0.8103'', ''photo-1704621234567-0.5247''] \<and>
   distinct (map id_str (globalPhotos
      (add_all mock example_json [(env_a, ''file://a''), (env_b, ''file://b'')]
         (initial_store Map.empty))))"
proof -
  have keys: "distinct (map (\<lambda>c. (now_id (fst c), random_text (fst c)))
      [(env_a, ''file://a''), (env_b, ''file://b'')])"
    by (simp add: env_a_def env_b_def)
  have ids: "map id_str (globalPhotos
      (add_all mock example_json [(env_a, ''file://a''), (env_b, ''file://b'')]
         (initial_store Map.empty)))
     = [''photo-1704621239015-0.8103'', ''photo-1704621234567-0.5247'']"
    by (simp only: two_adds) (simp add: photo_a_def photo_b_def)
  note addPhoto_prepends [of mock example_json env_a "''file://a''"
      "initial_store Map.empty" "[(env_a, ''file://a''), (env_b, ''file://b'')]" Map.empty,
      THEN conjunct2, THEN conjunct2, THEN conjunct2, rule_format, OF keys]
  with ids show ?thesis
    by (simp only: simp_thms)
qed

section \<open>Properties of the cursor\<close>

text \<open>
  C4. From the empty collection, adding file://a and then file://b gives [b, a]. A
  commit to the left at index 0 leaves the collection [a] and the view mode swipe, but
  the cursor is then at index 1, not 0: the next render has no current photo.
\<close>

theorem commit_left_moves_past_next:
  "map uri (globalPhotos
      (add_all A J [(env_a, ''file://a''), (env_b, ''file://b'')] (initial_store d)))
     = [''file://b'', ''file://a''] \<and>
   (let s = add_all A J [(env_a, ''file://a''), (env_b, ''file://b'')] (initial_store d);
        sc = \<lparr>photos = useGalleryStore_photos s, currentIndex = 0, viewMode = swipe\<rparr>;
        r = handleSwipeLeft A J sc s
    in map uri (globalPhotos (snd (snd r))) = [''file://a''] \<and>
       viewMode (fst (snd r)) = swipe \<and>
       currentIndex (fst (snd r)) = 1 \<and>
       currentPhoto (rerender (snd (snd r)) (fst (snd r))) = None)"
  by (simp add: globalPhotos_addPhoto newPhoto_a newPhoto_b initial_store_def Let_def
      useGalleryStore_photos_def handleSwipeLeft_def currentPhoto_def moveToNext_def
      globalPhotos_removePhoto rerender_def)
     (simp add: photo_a_def photo_b_def)

lemma handleSwipeLeft_index:
  "currentIndex sc + 1 < length (photos sc) \<Longrightarrow>
   currentIndex (fst (snd (handleSwipeLeft A J sc s))) = currentIndex sc + 1"
  by (auto simp: handleSwipeLeft_def moveToNext_def Let_def)



section \<open>Properties of the listener registry\<close>

lemma Set_has_values: "Set_has l es \<longleftrightarrow> l \<in> set (Set_values es)"
  by (induction es rule: Set_values.induct) (auto simp: Set_has_def)

lemma Set_values_append: "Set_values (es @ fs) = Set_values es @ Set_values fs"
  by (induction es rule: Set_values.induct) auto

lemma Set_values_add:
  "Set_values (Set_add l es) = (if Set_has l es then Set_values es else Set_values es @ [l])"
  by (simp add: Set_add_def Set_values_append)

lemma Set_values_delete: "Set_values (Set_delete l es) = filter (\<lambda>k. k \<noteq> l) (Set_values es)"
  by (induction es rule: Set_values.induct) (auto simp: Set_delete_def)

lemma distinct_Set_add: "distinct (Set_values es) \<Longrightarrow> distinct (Set_values (Set_add l es))"
  by (simp add: Set_values_add Set_has_values)

lemma distinct_Set_delete: "distinct (Set_values es) \<Longrightarrow> distinct (Set_values (Set_delete l es))"
  by (simp add: Set_values_delete)









end
